theory Spec2Isabelle
  imports Main
begin

section \<open>Object literals of the configuration files\<close>

text \<open>
  The repository holds no functions of its own: its two TypeScript files each declare
  one constant, an object literal, and export it. The literals are embedded as values
  of a small datatype of JavaScript expressions, with the fields in the order of the
  source. Type annotations (\<^verbatim>\<open>: Config\<close>, \<^verbatim>\<open>satisfies Preset.Options\<close>) and
  comments have no runtime content and are left out.
\<close>

datatype tpart = Lit string | Subst string

datatype js =
    JStr string
  | JBool bool
  | JArr "js list"
  | JObj "(string \<times> js) list"
  | JRef string
  | JTemplate "tpart list"

text \<open>
  Property access \<^verbatim>\<open>o.k\<close>: \<open>None\<close> stands for \<^verbatim>\<open>undefined\<close>. No literal of the
  repository repeats a key, so the first binding is the only one.
\<close>

fun obj_field :: "string \<Rightarrow> js \<Rightarrow> js option" where
  "obj_field k (JObj fs) = map_of fs k"
| "obj_field k (JStr s) = None"
| "obj_field k (JBool b) = None"
| "obj_field k (JArr xs) = None"
| "obj_field k (JRef r) = None"
| "obj_field k (JTemplate ps) = None"

fun get_path :: "string list \<Rightarrow> js \<Rightarrow> js option" where
  "get_path [] v = Some v"
| "get_path (k # ks) v = (case obj_field k v of None \<Rightarrow> None | Some w \<Rightarrow> get_path ks w)"

fun as_str :: "js option \<Rightarrow> string option" where
  "as_str (Some (JStr s)) = Some s"
| "as_str (Some (JBool b)) = None"
| "as_str (Some (JArr xs)) = None"
| "as_str (Some (JObj fs)) = None"
| "as_str (Some (JRef r)) = None"
| "as_str (Some (JTemplate ps)) = None"
| "as_str None = None"

fun arr_items :: "js option \<Rightarrow> js list" where
  "arr_items (Some (JArr xs)) = xs"
| "arr_items (Some (JStr s)) = []"
| "arr_items (Some (JBool b)) = []"
| "arr_items (Some (JObj fs)) = []"
| "arr_items (Some (JRef r)) = []"
| "arr_items (Some (JTemplate ps)) = []"
| "arr_items None = []"

definition str_field :: "string \<Rightarrow> js \<Rightarrow> string option" where
  "str_field k v = as_str (obj_field k v)"

fun str_fields :: "string \<Rightarrow> js list \<Rightarrow> string list" where
  "str_fields k [] = []"
| "str_fields k (v # vs) =
     (case str_field k v of Some s \<Rightarrow> s # str_fields k vs | None \<Rightarrow> str_fields k vs)"

subsection \<open>The site configuration (src/docusaurus.config.ts, lines 7 to 132)\<close>

definition navbar :: js where
  "navbar = JObj
    [(''title'', JStr ''Build AI Agent''),
     (''logo'', JObj [(''alt'', JStr ''Build AI Agent Logo''), (''src'', JStr ''img/logo.svg'')]),
     (''items'', JArr
       [JObj [(''type'', JStr ''docSidebar''),
              (''sidebarId'', JStr ''tutorialSidebar''),
              (''position'', JStr ''left''),
              (''label'', JStr ''Docs'')],
        JObj [(''type'', JStr ''docSidebar''),
              (''sidebarId'', JStr ''apiSidebar''),
              (''position'', JStr ''left''),
              (''label'', JStr ''API'')],
        JObj [(''href'', JStr ''https://github.com/LinuxDevil/agent-sdk''),
              (''label'', JStr ''GitHub''),
              (''position'', JStr ''right'')],
        JObj [(''href'', JStr ''https://www.npmjs.com/package/@tajwal/build-ai-agent''),
              (''label'', JStr ''npm''),
              (''position'', JStr ''right'')]])]"

definition footer :: js where
  "footer = JObj
    [(''style'', JStr ''dark''),
     (''links'', JArr
       [JObj [(''title'', JStr ''Docs''),
              (''items'', JArr
                [JObj [(''label'', JStr ''Getting Started''), (''to'', JStr ''/docs/intro'')],
                 JObj [(''label'', JStr ''API Reference''), (''to'', JStr ''/docs/api/overview'')],
                 JObj [(''label'', JStr ''Examples''), (''to'', JStr ''/docs/examples/chatbot'')]])],
        JObj [(''title'', JStr ''More''),
              (''items'', JArr
                [JObj [(''label'', JStr ''GitHub''),
                       (''href'', JStr ''https://github.com/LinuxDevil/agent-sdk'')]])]]),
     (''copyright'', JTemplate
       [Lit (''Copyright '' @ [CHR 0xC2, CHR 0xA9] @ '' ''),
        Subst ''new Date().getFullYear()'',
        Lit '' Almosafer.''])]"

definition prism :: js where
  "prism = JObj
    [(''theme'', JRef ''prismThemes.github''),
     (''darkTheme'', JRef ''prismThemes.dracula''),
     (''additionalLanguages'',
        JArr [JStr ''bash'', JStr ''typescript'', JStr ''javascript'', JStr ''json''])]"

definition themeConfig :: js where
  "themeConfig = JObj
    [(''image'', JStr ''img/docusaurus-social-card.jpg''),
     (''colorMode'', JObj [(''respectPrefersColorScheme'', JBool True)]),
     (''navbar'', navbar),
     (''footer'', footer),
     (''prism'', prism)]"

definition presets :: js where
  "presets = JArr
    [JArr
      [JStr ''classic'',
       JObj [(''docs'', JObj
               [(''sidebarPath'', JStr ''./sidebars.ts''),
                (''editUrl'', JStr ''https://github.com/LinuxDevil/agent-sdk/tree/main/docs/'')]),
             (''blog'', JBool False),
             (''theme'', JObj [(''customCss'', JStr ''./src/css/custom.css'')])]]]"

definition config :: js where
  "config = JObj
    [(''title'', JStr ''Build AI Agent SDK''),
     (''tagline'', JStr ''Framework-agnostic SDK for building intelligent AI agents''),
     (''favicon'', JStr ''img/favicon.ico''),
     (''future'', JObj [(''v4'', JBool True)]),
     (''url'', JStr ''https://linuxdevil.github.io''),
     (''baseUrl'', JStr ''/agent-sdk-docs/''),
     (''organizationName'', JStr ''LinuxDevil''),
     (''projectName'', JStr ''agent-sdk-docs''),
     (''onBrokenLinks'', JStr ''throw''),
     (''i18n'', JObj [(''defaultLocale'', JStr ''en''), (''locales'', JArr [JStr ''en''])]),
     (''presets'', presets),
     (''themeConfig'', themeConfig)]"

definition navbar_items :: "js \<Rightarrow> js list" where
  "navbar_items c = arr_items (get_path [''themeConfig'', ''navbar'', ''items''] c)"

definition footer_links :: "js \<Rightarrow> js list" where
  "footer_links c = arr_items (get_path [''themeConfig'', ''footer'', ''links''] c)"

text \<open>The link targets (\<^verbatim>\<open>to\<close>) of the footer section with a given title.\<close>

definition footer_section :: "string \<Rightarrow> js \<Rightarrow> js list" where
  "footer_section t c =
     concat (map (\<lambda>g. arr_items (obj_field ''items'' g))
                 (filter (\<lambda>g. str_field ''title'' g = Some t) (footer_links c)))"

definition footer_targets :: "string \<Rightarrow> js \<Rightarrow> string list" where
  "footer_targets t c = str_fields ''to'' (footer_section t c)"

subsection \<open>The sidebars (src/unnamed/part_005, lines 15 to 68)\<close>

text \<open>
  The file is the one the configuration names in \<^verbatim>\<open>sidebarPath: './sidebars.ts'\<close>.
  A sidebar item is written in one of three ways: a bare string (a document ID), an
  object with \<^verbatim>\<open>type: 'doc'\<close>, or an object with \<^verbatim>\<open>type: 'category'\<close> whose
  \<^verbatim>\<open>items\<close> are sidebar items again. \<open>Doc\<close> takes the \<^verbatim>\<open>id\<close> and the \<^verbatim>\<open>label\<close>,
  \<open>Category\<close> the \<^verbatim>\<open>label\<close>, \<^verbatim>\<open>collapsed\<close> (written on one category only) and the
  \<^verbatim>\<open>items\<close>.
\<close>

datatype sidebar_item =
    DocId string
  | Doc string string
  | Category string "bool option" "sidebar_item list"

definition sidebars :: "(string \<times> sidebar_item list) list" where
  "sidebars =
    [(''tutorialSidebar'',
       [Doc ''overview'' ''What is Build AI Agent?'',
        DocId ''intro'',
        DocId ''installation'',
        DocId ''quick-start'',
        Category ''Core Concepts'' (Some False)
          [DocId ''concepts/agents'', DocId ''concepts/tools''],
        Category ''Tutorials'' None
          [DocId ''tutorials/building-chatbot''],
        Category ''Examples'' None
          [DocId ''examples/chatbot''],
        Doc ''glossary'' ''Glossary'']),
     (''apiSidebar'',
       [DocId ''api/overview'',
        Category ''Core API'' None
          [DocId ''api/agent-builder'', DocId ''api/agent-executor'']])]"

fun item_doc_ids :: "sidebar_item \<Rightarrow> string list" where
  "item_doc_ids (DocId d) = [d]"
| "item_doc_ids (Doc d l) = [d]"
| "item_doc_ids (Category l c its) = concat (map item_doc_ids its)"

fun item_category_labels :: "sidebar_item \<Rightarrow> string list" where
  "item_category_labels (DocId d) = []"
| "item_category_labels (Doc d l) = []"
| "item_category_labels (Category l c its) = l # concat (map item_category_labels its)"

fun item_groups :: "sidebar_item \<Rightarrow> (string \<times> string list) list" where
  "item_groups (DocId d) = []"
| "item_groups (Doc d l) = []"
| "item_groups (Category l c its) =
     (l, concat (map item_doc_ids its)) # concat (map item_groups its)"

definition sidebar_ids :: "(string \<times> sidebar_item list) list \<Rightarrow> string list" where
  "sidebar_ids sb = map fst sb"

definition doc_ids :: "(string \<times> sidebar_item list) list \<Rightarrow> string list" where
  "doc_ids sb = concat (map (\<lambda>(k, its). concat (map item_doc_ids its)) sb)"

definition category_labels :: "(string \<times> sidebar_item list) list \<Rightarrow> string list" where
  "category_labels sb = concat (map (\<lambda>(k, its). concat (map item_category_labels its)) sb)"

definition category_groups ::
  "(string \<times> sidebar_item list) list \<Rightarrow> (string \<times> string list) list" where
  "category_groups sb = concat (map (\<lambda>(k, its). concat (map item_groups its)) sb)"

section \<open>Source text\<close>

text \<open>
  What the files mention, and what the markdown pages hold, is proved on the text
  itself: a file is the list of its lines. The TypeScript files and the
  README are embedded whole, the markdown pages by the line ranges given. Characters
  that cannot stand inside a string literal are spelled by their byte.
\<close>

subsection \<open>TypeScript files\<close>

text \<open>src/docusaurus.config.ts, lines 1 to 134.\<close>

definition docusaurus_config_ts :: "string list" where
  \<open>docusaurus_config_ts =
    [''import {themes as prismThemes} from 'prism-react-renderer';'',
     ''import type {Config} from '@docusaurus/types';'',
     ''import type * as Preset from '@docusaurus/preset-classic';'',
     '''',
     ''// This runs in Node.js - Don't use client-side code here (browser APIs, JSX...)'',
     '''',
     ''const config: Config = {'',
     ''  title: 'Build AI Agent SDK','',
     ''  tagline: 'Framework-agnostic SDK for building intelligent AI agents','',
     ''  favicon: 'img/favicon.ico','',
     '''',
     ''  // Future flags, see https://docusaurus.io/docs/api/docusaurus-config#future'',
     ''  future: {'',
     ''    v4: true, // Improve compatibility with the upcoming Docusaurus v4'',
     ''  },'',
     '''',
     ''  // Set the production url of your site here'',
     ''  url: 'https://linuxdevil.github.io','',
     ''  // Set the /<baseUrl>/ pathname under which your site is served'',
     ''  // For GitHub pages deployment, it is often '/<projectName>/'' @ [CHR 0x27],
     ''  baseUrl: '/agent-sdk-docs/','',
     '''',
     ''  // GitHub pages deployment config.'',
     ''  // If you aren't using GitHub pages, you don't need these.'',
     ''  organizationName: 'LinuxDevil', // Usually your GitHub org/user name.'',
     ''  projectName: 'agent-sdk-docs', // Usually your repo name.'',
     '''',
     ''  onBrokenLinks: 'throw','',
     '''',
     ''  // Even if you don't use internationalization, you can use this field to set'',
     ''  // useful metadata like html lang. For example, if your site is Chinese, you'',
     ''  // may want to replace "en" with "zh-Hans".'',
     ''  i18n: {'',
     ''    defaultLocale: 'en','',
     ''    locales: ['en'],'',
     ''  },'',
     '''',
     ''  presets: ['',
     ''    ['',
     ''      'classic','',
     ''      {'',
     ''        docs: {'',
     ''          sidebarPath: './sidebars.ts','',
     ''          // Please change this to your repo.'',
     ''          // Remove this to remove the "edit this page" links.'',
     ''          editUrl:'',
     ''            'https://github.com/LinuxDevil/agent-sdk/tree/main/docs/','',
     ''        },'',
     ''        blog: false,  // Disable blog'',
     ''        theme: {'',
     ''          customCss: './src/css/custom.css','',
     ''        },'',
     ''      } satisfies Preset.Options,'',
     ''    ],'',
     ''  ],'',
     '''',
     ''  themeConfig: {'',
     ''    // Replace with your project's social card'',
     ''    image: 'img/docusaurus-social-card.jpg','',
     ''    colorMode: {'',
     ''      respectPrefersColorScheme: true,'',
     ''    },'',
     ''    navbar: {'',
     ''      title: 'Build AI Agent','',
     ''      logo: {'',
     ''        alt: 'Build AI Agent Logo','',
     ''        src: 'img/logo.svg','',
     ''      },'',
     ''      items: ['',
     ''        {'',
     ''          type: 'docSidebar','',
     ''          sidebarId: 'tutorialSidebar','',
     ''          position: 'left','',
     ''          label: 'Docs','',
     ''        },'',
     ''        {'',
     ''          type: 'docSidebar','',
     ''          sidebarId: 'apiSidebar','',
     ''          position: 'left','',
     ''          label: 'API','',
     ''        },'',
     ''        {'',
     ''          href: 'https://github.com/LinuxDevil/agent-sdk','',
     ''          label: 'GitHub','',
     ''          position: 'right','',
     ''        },'',
     ''        {'',
     ''          href: 'https://www.npmjs.com/package/@tajwal/build-ai-agent','',
     ''          label: 'npm','',
     ''          position: 'right','',
     ''        },'',
     ''      ],'',
     ''    },'',
     ''    footer: {'',
     ''      style: 'dark','',
     ''      links: ['',
     ''        {'',
     ''          title: 'Docs','',
     ''          items: ['',
     ''            {'',
     ''              label: 'Getting Started','',
     ''              to: '/docs/intro','',
     ''            },'',
     ''            {'',
     ''              label: 'API Reference','',
     ''              to: '/docs/api/overview','',
     ''            },'',
     ''            {'',
     ''              label: 'Examples','',
     ''              to: '/docs/examples/chatbot','',
     ''            },'',
     ''          ],'',
     ''        },'',
     ''        {'',
     ''          title: 'More','',
     ''          items: ['',
     ''            {'',
     ''              label: 'GitHub','',
     ''              href: 'https://github.com/LinuxDevil/agent-sdk','',
     ''            }'',
     ''          ],'',
     ''        },'',
     ''      ],'',
     ''      copyright: `Copyright '' @ [CHR 0xC2, CHR 0xA9] @ '' ${new Date().getFullYear()} Almosafer.`,'',
     ''    },'',
     ''    prism: {'',
     ''      theme: prismThemes.github,'',
     ''      darkTheme: prismThemes.dracula,'',
     ''      additionalLanguages: ['bash', 'typescript', 'javascript', 'json'],'',
     ''    },'',
     ''  } satisfies Preset.ThemeConfig,'',
     ''};'',
     '''',
     ''export default config;'']\<close>

text \<open>src/unnamed/part_005 (the sidebars file), lines 1 to 70.\<close>

definition sidebars_ts :: "string list" where
  \<open>sidebars_ts =
    [''import type {SidebarsConfig} from '@docusaurus/plugin-content-docs';'',
     '''',
     ''// This runs in Node.js - Don't use client-side code here (browser APIs, JSX...)'',
     '''',
     ''/**'',
     '' * Creating a sidebar enables you to:'',
     '' - create an ordered group of docs'',
     '' - render a sidebar for each doc of that group'',
     '' - provide next/previous navigation'',
     '''',
     '' The sidebars can be generated from the filesystem, or explicitly defined here.'',
     '''',
     '' Create as many sidebars as you want.'',
     '' */'',
     ''const sidebars: SidebarsConfig = {'',
     ''  // Main documentation sidebar'',
     ''  tutorialSidebar: ['',
     ''    {'',
     ''      type: 'doc','',
     ''      id: 'overview','',
     ''      label: 'What is Build AI Agent?'' @ [CHR 0x27],
     ''    },'',
     ''    'intro','',
     ''    'installation','',
     ''    'quick-start','',
     ''    {'',
     ''      type: 'category','',
     ''      label: 'Core Concepts','',
     ''      collapsed: false,'',
     ''      items: ['',
     ''        'concepts/agents','',
     ''        'concepts/tools','',
     ''      ],'',
     ''    },'',
     ''    {'',
     ''      type: 'category','',
     ''      label: 'Tutorials','',
     ''      items: ['',
     ''        'tutorials/building-chatbot','',
     ''      ],'',
     ''    },'',
     ''    {'',
     ''      type: 'category','',
     ''      label: 'Examples','',
     ''      items: ['',
     ''        'examples/chatbot','',
     ''      ],'',
     ''    },'',
     ''    {'',
     ''      type: 'doc','',
     ''      id: 'glossary','',
     ''      label: 'Glossary'' @ [CHR 0x27],
     ''    },'',
     ''  ],'',
     '''',
     ''  // API Reference sidebar'',
     ''  apiSidebar: ['',
     ''    'api/overview','',
     ''    {'',
     ''      type: 'category','',
     ''      label: 'Core API','',
     ''      items: ['',
     ''        'api/agent-builder','',
     ''        'api/agent-executor','',
     ''      ],'',
     ''    },'',
     ''  ],'',
     ''};'',
     '''',
     ''export default sidebars;'']\<close>

text \<open>
  A second site configuration, for another host, stored behind the Tools page:
  src/docs/concepts/tools.md, lines 470 to 624. Its file name is not known.
\<close>

definition config_variant_ts :: "string list" where
  \<open>config_variant_ts =
    [''import {themes as prismThemes} from 'prism-react-renderer';'',
     ''import type {Config} from '@docusaurus/types';'',
     ''import type * as Preset from '@docusaurus/preset-classic';'',
     '''',
     ''// This runs in Node.js - Don't use client-side code here (browser APIs, JSX...)'',
     '''',
     ''const config: Config = {'',
     ''  title: 'Build AI Agent SDK','',
     ''  tagline: 'Framework-agnostic SDK for building intelligent AI agents','',
     ''  favicon: 'img/favicon.ico','',
     '''',
     ''  // Future flags, see https://docusaurus.io/docs/api/docusaurus-config#future'',
     ''  future: {'',
     ''    v4: true, // Improve compatibility with the upcoming Docusaurus v4'',
     ''  },'',
     '''',
     ''  // Set the production url of your site here'',
     ''  url: 'https://docs.tajwal.com','',
     ''  // Set the /<baseUrl>/ pathname under which your site is served'',
     ''  // For GitHub pages deployment, it is often '/<projectName>/'' @ [CHR 0x27],
     ''  baseUrl: '/','',
     '''',
     ''  // GitHub pages deployment config.'',
     ''  // If you aren't using GitHub pages, you don't need these.'',
     ''  organizationName: 'tajwal', // Usually your GitHub org/user name.'',
     ''  projectName: 'build-ai-agent', // Usually your repo name.'',
     '''',
     ''  onBrokenLinks: 'throw','',
     '''',
     ''  // Even if you don't use internationalization, you can use this field to set'',
     ''  // useful metadata like html lang. For example, if your site is Chinese, you'',
     ''  // may want to replace "en" with "zh-Hans".'',
     ''  i18n: {'',
     ''    defaultLocale: 'en','',
     ''    locales: ['en'],'',
     ''  },'',
     '''',
     ''  presets: ['',
     ''    ['',
     ''      'classic','',
     ''      {'',
     ''        docs: {'',
     ''          sidebarPath: './sidebars.ts','',
     ''          // Please change this to your repo.'',
     ''          // Remove this to remove the "edit this page" links.'',
     ''          editUrl:'',
     ''            'https://github.com/tajwal/build-ai-agent/tree/main/docs/','',
     ''        },'',
     ''        blog: false,  // Disable blog'',
     ''        theme: {'',
     ''          customCss: './src/css/custom.css','',
     ''        },'',
     ''      } satisfies Preset.Options,'',
     ''    ],'',
     ''  ],'',
     '''',
     ''  themeConfig: {'',
     ''    // Replace with your project's social card'',
     ''    image: 'img/docusaurus-social-card.jpg','',
     ''    colorMode: {'',
     ''      respectPrefersColorScheme: true,'',
     ''    },'',
     ''    navbar: {'',
     ''      title: 'Build AI Agent','',
     ''      logo: {'',
     ''        alt: 'Build AI Agent Logo','',
     ''        src: 'img/logo.svg','',
     ''      },'',
     ''      items: ['',
     ''        {'',
     ''          type: 'docSidebar','',
     ''          sidebarId: 'tutorialSidebar','',
     ''          position: 'left','',
     ''          label: 'Docs','',
     ''        },'',
     ''        {'',
     ''          type: 'docSidebar','',
     ''          sidebarId: 'apiSidebar','',
     ''          position: 'left','',
     ''          label: 'API','',
     ''        },'',
     ''        {'',
     ''          href: 'https://github.com/tajwal/build-ai-agent','',
     ''          label: 'GitHub','',
     ''          position: 'right','',
     ''        },'',
     ''        {'',
     ''          href: 'https://www.npmjs.com/package/@tajwal/build-ai-agent','',
     ''          label: 'npm','',
     ''          position: 'right','',
     ''        },'',
     ''      ],'',
     ''    },'',
     ''    footer: {'',
     ''      style: 'dark','',
     ''      links: ['',
     ''        {'',
     ''          title: 'Docs','',
     ''          items: ['',
     ''            {'',
     ''              label: 'Getting Started','',
     ''              to: '/docs/intro','',
     ''            },'',
     ''            {'',
     ''              label: 'API Reference','',
     ''              to: '/docs/api/overview','',
     ''            },'',
     ''            {'',
     ''              label: 'Examples','',
     ''              to: '/docs/examples/chatbot','',
     ''            },'',
     ''          ],'',
     ''        },'',
     ''        {'',
     ''          title: 'Community','',
     ''          items: ['',
     ''            {'',
     ''              label: 'Stack Overflow','',
     ''              href: 'https://stackoverflow.com/questions/tagged/build-ai-agent','',
     ''            },'',
     ''            {'',
     ''              label: 'Discord','',
     ''              href: 'https://discord.gg/tajwal','',
     ''            },'',
     ''            {'',
     ''              label: 'Twitter','',
     ''              href: 'https://twitter.com/tajwal','',
     ''            },'',
     ''          ],'',
     ''        },'',
     ''        {'',
     ''          title: 'More','',
     ''          items: ['',
     ''            {'',
     ''              label: 'GitHub','',
     ''              href: 'https://github.com/tajwal/build-ai-agent','',
     ''            },'',
     ''            {'',
     ''              label: 'npm Package','',
     ''              href: 'https://www.npmjs.com/package/@tajwal/build-ai-agent','',
     ''            },'',
     ''          ],'',
     ''        },'',
     ''      ],'',
     ''      copyright: `Copyright '' @ [CHR 0xC2, CHR 0xA9] @ '' ${new Date().getFullYear()} Tajwal. Built with Docusaurus.`,'',
     ''    },'',
     ''    prism: {'',
     ''      theme: prismThemes.github,'',
     ''      darkTheme: prismThemes.dracula,'',
     ''      additionalLanguages: ['bash', 'typescript', 'javascript', 'json'],'',
     ''    },'',
     ''  } satisfies Preset.ThemeConfig,'',
     ''};'',
     '''',
     ''export default config;'']\<close>

subsection \<open>README\<close>

text \<open>src/README.md, lines 1 to 47.\<close>

definition readme_md :: "string list" where
  \<open>readme_md =
    [''# Build AI Agent SDK Documentation'',
     '''',
     ''This website is built using [Docusaurus](https://docusaurus.io/), a modern static website generator.'',
     '''',
     ''## Installation'',
     '''',
     ''```bash'',
     ''npm install'',
     ''```'',
     '''',
     ''## Local Development'',
     '''',
     ''```bash'',
     ''npm start'',
     ''```'',
     '''',
     ''This command starts a local development server and opens up a browser window. Most changes are reflected live without having to restart the server.'',
     '''',
     ''## Build'',
     '''',
     ''```bash'',
     ''npm run build'',
     ''```'',
     '''',
     ''This command generates static content into the `build` directory and can be served using any static contents hosting service.'',
     '''',
     ''## Deployment'',
     '''',
     ''This site is automatically deployed to GitHub Pages when changes are pushed to the `main` branch. The deployment is handled by GitHub Actions (see `.github/workflows/deploy.yml`).'',
     '''',
     ''The site will be available at: https://linuxdevil.github.io/agent-sdk-docs/'',
     '''',
     ''### Manual Deployment'',
     '''',
     ''If you need to deploy manually:'',
     '''',
     ''```bash'',
     ''npm run deploy'',
     ''```'',
     '''',
     ''### Setting up GitHub Pages'',
     '''',
     ''1. Go to your repository settings on GitHub'',
     ''2. Navigate to "Pages" in the left sidebar'',
     ''3. Under "Build and deployment", set:'',
     ''   - **Source**: GitHub Actions'',
     ''4. Push changes to the `main` branch to trigger automatic deployment'']\<close>

subsection \<open>Markdown pages: opening lines\<close>

text \<open>
  Each documentation page from its first line to its first heading. Eleven pages are
  stored under src/; seven of them without their file names.
\<close>

definition intro_head :: "string list" where
  \<open>intro_head =
    [''---'',
     ''sidebar_position: 1'',
     ''---'',
     '''',
     ''# Welcome to Build AI Agent SDK'']\<close>

definition overview_head :: "string list" where
  \<open>overview_head =
    [''---'',
     ''sidebar_position: 1'',
     ''title: What is Build AI Agent SDK?'',
     ''description: Overview of the Build AI Agent SDK, its architecture, and why it exists'',
     ''---'',
     '''',
     ''# What is Build AI Agent SDK?'']\<close>

definition glossary_head :: "string list" where
  \<open>glossary_head =
    [''---'',
     ''sidebar_position: 100'',
     ''title: Glossary'',
     ''description: Definitions of key terms and concepts in Build AI Agent SDK'',
     ''---'',
     '''',
     ''# Glossary'']\<close>

definition tools_head :: "string list" where
  \<open>tools_head =
    [''---'',
     ''sidebar_position: 2'',
     ''---'',
     '''',
     ''# Tools'']\<close>

definition tutorial_head :: "string list" where
  \<open>tutorial_head =
    [''---'',
     ''sidebar_position: 1'',
     ''title: "Tutorial: Building a Complete Chatbot"'',
     ''description: Step-by-step guide to building a production-ready chatbot with tools, memory, and error handling'',
     ''---'',
     '''',
     ''# Tutorial: Building a Complete Chatbot'']\<close>

definition chatbot_example_head :: "string list" where
  \<open>chatbot_example_head =
    [''---'',
     ''sidebar_position: 1'',
     ''---'',
     '''',
     ''# Simple Chatbot'']\<close>

definition quick_start_head :: "string list" where
  \<open>quick_start_head =
    [''---'',
     ''sidebar_position: 3'',
     ''---'',
     '''',
     ''# Quick Start'']\<close>

definition api_overview_head :: "string list" where
  \<open>api_overview_head =
    [''---'',
     ''sidebar_position: 1'',
     ''---'',
     '''',
     ''# API Overview'']\<close>

definition agent_builder_head :: "string list" where
  \<open>agent_builder_head =
    [''---'',
     ''sidebar_position: 1'',
     ''title: AgentBuilder'',
     ''description: Complete API reference for the AgentBuilder class'',
     ''---'',
     '''',
     ''# AgentBuilder'']\<close>

definition agent_executor_head :: "string list" where
  \<open>agent_executor_head =
    [''---'',
     ''sidebar_position: 2'',
     ''title: AgentExecutor'',
     ''description: Complete API reference for the AgentExecutor class'',
     ''---'',
     '''',
     ''# AgentExecutor'']\<close>

definition installation_head :: "string list" where
  \<open>installation_head =
    [''---'',
     ''sidebar_position: 2'',
     ''---'',
     '''',
     ''# Installation'']\<close>

definition content_pages :: "(string \<times> string list) list" where
  "content_pages =
    [(''src/docs/intro.md'', intro_head),
     (''src/docs/overview.md'', overview_head),
     (''src/docs/glossary.md'', glossary_head),
     (''src/docs/concepts/tools.md'', tools_head),
     (''src/docs/glossary.md from line 168 (Tutorial: Building a Complete Chatbot)'', tutorial_head),
     (''src/unnamed/part_000 (Simple Chatbot)'', chatbot_example_head),
     (''src/unnamed/part_001 (Quick Start)'', quick_start_head),
     (''src/unnamed/part_002 (API Overview)'', api_overview_head),
     (''src/unnamed/part_003 (AgentBuilder)'', agent_builder_head),
     (''src/unnamed/part_004 (AgentExecutor)'', agent_executor_head),
     (''src/unnamed/part_004 from line 748 (Installation)'', installation_head)]"

subsection \<open>Markdown pages: excerpts\<close>

text \<open>
  The chatbot example, src/unnamed/part_000, lines 17 to 39: the heading
  \<^verbatim>\<open>## Complete Code\<close> and the start of the code block under it.
\<close>

definition chatbot_example_code :: "string list" where
  \<open>chatbot_example_code =
    [''## Complete Code'',
     '''',
     ''```typescript title="chatbot.ts"'',
     ''import { '',
     ''  AgentBuilder, '',
     ''  AgentExecutor, '',
     ''  OpenAIProvider,'',
     ''  createMockRepositories,'',
     ''  AgentType '',
     ''} from '@tajwal/build-ai-agent';'',
     '''',
     ''async function main() {'',
     ''  // Create chatbot agent'',
     ''  const agent = new AgentBuilder()'',
     ''    .setType(AgentType.Chatbot)'',
     ''    .setName('Friendly Chatbot')'',
     ''    .setPrompt(`You are a friendly and helpful chatbot assistant.'',
     ''    - Be conversational and warm'',
     ''    - Remember context from previous messages'',
     ''    - Ask clarifying questions when needed'',
     ''    - Provide helpful and accurate information`)'',
     ''    .setDescription('A friendly chatbot for general conversations')'',
     ''    .build();'']\<close>

text \<open>
  The AgentBuilder reference, src/unnamed/part_003, lines 707 to 737: the section
  \<^verbatim>\<open>## Type Definitions\<close> with its code block.
\<close>

definition agent_builder_type_definitions :: "string list" where
  \<open>agent_builder_type_definitions =
    ['''',
     ''## Type Definitions'',
     '''',
     ''```typescript'',
     ''interface AgentConfig {'',
     ''  id?: string;'',
     ''  name: string;'',
     ''  agentType: AgentType;'',
     ''  locale?: string;'',
     ''  prompt?: string;'',
     ''  expectedResult?: any;'',
     ''  tools?: Record<string, ToolConfiguration>;'',
     ''  flows?: AgentFlow[];'',
     ''  events?: any[];'',
     ''  settings?: Record<string, any>;'',
     ''  metadata?: Record<string, any>;'',
     ''}'',
     '''',
     ''interface ToolConfiguration {'',
     ''  tool: string;'',
     ''  description?: string;'',
     ''  options?: Record<string, any>;'',
     ''}'',
     '''',
     ''enum AgentType {'',
     ''  SmartAssistant = 'smart-assistant','',
     ''  SurveyAgent = 'survey-agent','',
     ''  CommerceAgent = 'commerce-agent','',
     ''  Flow = 'flow'' @ [CHR 0x27],
     ''}'',
     ''```'']\<close>

text \<open>
  The AgentExecutor reference, src/unnamed/part_004, lines 316 to 345: the sections
  \<^verbatim>\<open>### Message\<close> and \<^verbatim>\<open>### ToolCall\<close>. The code block before line 316 closes
  at line 314, so the excerpt opens outside a code block.
\<close>

definition agent_executor_types :: "string list" where
  \<open>agent_executor_types =
    [''### Message'',
     '''',
     ''Standard message format for conversation history.'',
     '''',
     ''```typescript'',
     ''interface Message {'',
     ''  role: MessageRole;           // Message role'',
     ''  content: string;             // Message content'',
     ''  name?: string;              // Tool name (for tool messages)'',
     ''  toolCallId?: string;        // Tool call ID (for tool messages)'',
     ''  toolCalls?: ToolCall[];     // Tool calls (for assistant messages)'',
     ''}'',
     '''',
     ''type MessageRole = 'system' | 'user' | 'assistant' | 'tool';'',
     ''```'',
     '''',
     ''### ToolCall'',
     '''',
     ''Represents an LLM's request to call a tool.'',
     '''',
     ''```typescript'',
     ''interface ToolCall {'',
     ''  id: string;                 // Unique call identifier'',
     ''  type: 'function';           // Always 'function'' @ [CHR 0x27],
     ''  function: {'',
     ''    name: string;             // Tool name'',
     ''    arguments: string;        // JSON string of arguments'',
     ''  };'',
     ''}'',
     ''```'']\<close>

text \<open>
  The AgentExecutor reference, src/unnamed/part_004, lines 75 to 91: the return type of
  \<^verbatim>\<open>execute\<close>. The code block before it closes at line 73.
\<close>

definition agent_executor_result :: "string list" where
  \<open>agent_executor_result =
    [''**Returns**: `Promise<ExecutionResult>`'',
     '''',
     ''```typescript'',
     ''interface ExecutionResult {'',
     ''  text: string;                // Final response text'',
     ''  messages: Message[];         // Complete message history'',
     ''  toolCalls: ToolCall[];      // All tool calls made'',
     ''  usage: {'',
     ''    promptTokens: number;'',
     ''    completionTokens: number;'',
     ''    totalTokens: number;'',
     ''  };'',
     ''  finishReason: string;       // Why generation stopped'',
     ''  steps: number;              // Number of iterations'',
     ''}'',
     ''```'',
     '''']\<close>

section \<open>Reading the text\<close>

text \<open>
  The repository has no code that reads these files: the site generator does. The
  functions below are the readings the properties speak of (a prefix of a string, a name
  occurring in a line, the lines inside and outside fenced code blocks, the keys of a
  frontmatter block, the members of an enum declaration), written to run on the text
  above.
\<close>

fun starts_with :: "string \<Rightarrow> string \<Rightarrow> bool" where
  "starts_with [] s = True"
| "starts_with (p # ps) [] = False"
| "starts_with (p # ps) (c # cs) = (if p = c then starts_with ps cs else False)"

definition strip_prefix :: "string \<Rightarrow> string \<Rightarrow> string option" where
  "strip_prefix p s = (if starts_with p s then Some (drop (length p) s) else None)"

fun occurs :: "string \<Rightarrow> string \<Rightarrow> bool" where
  "occurs n [] = starts_with n []"
| "occurs n (c # cs) = (if starts_with n (c # cs) then True else occurs n cs)"

definition lines_mentioning :: "string list \<Rightarrow> string list \<Rightarrow> string list" where
  "lines_mentioning ns ls = filter (\<lambda>l. list_ex (\<lambda>n. occurs n l) ns) ls"

definition sdk_type_names :: "string list" where
  "sdk_type_names = [''AgentConfig'', ''Message'', ''ToolCall'', ''ExecutionResult'']"

text \<open>
  Fenced code blocks: a line that starts with three backquotes opens or closes a block
  and belongs to neither side. The flag says whether the first line is inside a block.
\<close>

fun code_lines :: "bool \<Rightarrow> string list \<Rightarrow> string list" where
  "code_lines inside [] = []"
| "code_lines inside (l # ls) =
     (if starts_with ''```'' l then code_lines (\<not> inside) ls
      else if inside then l # code_lines inside ls
      else code_lines inside ls)"

fun prose_lines :: "bool \<Rightarrow> string list \<Rightarrow> string list" where
  "prose_lines inside [] = []"
| "prose_lines inside (l # ls) =
     (if starts_with ''```'' l then prose_lines (\<not> inside) ls
      else if inside then prose_lines inside ls
      else l # prose_lines inside ls)"

text \<open>
  Frontmatter: the file opens with a line \<^verbatim>\<open>---\<close>; the block runs to the next such
  line; the key of a line is the text before its first colon.
\<close>

fun frontmatter :: "string list \<Rightarrow> string list option" where
  "frontmatter [] = None"
| "frontmatter (l # ls) =
     (if l = ''---'' \<and> ''---'' \<in> set ls then Some (takeWhile (\<lambda>x. x \<noteq> ''---'') ls)
      else None)"

definition frontmatter_keys :: "string list \<Rightarrow> string list" where
  "frontmatter_keys ls =
     (case frontmatter ls of
        None \<Rightarrow> []
      | Some b \<Rightarrow> map (takeWhile (\<lambda>c. c \<noteq> CHR '':'')) b)"

text \<open>
  The line of the README that announces the published address.
\<close>

fun published_url :: "string list \<Rightarrow> string option" where
  "published_url [] = None"
| "published_url (l # ls) =
     (case strip_prefix ''The site will be available at: '' l of
        Some u \<Rightarrow> Some u
      | None \<Rightarrow> published_url ls)"

fun concat_opt :: "string option \<Rightarrow> string option \<Rightarrow> string option" where
  "concat_opt (Some a) (Some b) = Some (a @ b)"
| "concat_opt None b = None"
| "concat_opt (Some a) None = None"

text \<open>
  TypeScript in the code blocks: the member names written after \<^verbatim>\<open>E.\<close> in a line, and
  the members an \<^verbatim>\<open>enum E { ... }\<close> declaration lists (name and quoted value).
\<close>

definition ident_char :: "char \<Rightarrow> bool" where
  "ident_char c =
     (c \<in> set ''ABCDEFGHIJKLMNOPQRSTUVWXYZabcdefghijklmnopqrstuvwxyz0123456789_$'')"

fun member_uses :: "string \<Rightarrow> string \<Rightarrow> string list" where
  "member_uses e [] = []"
| "member_uses e (c # cs) =
     (if starts_with (e @ ''.'') (c # cs)
      then takeWhile ident_char (drop (length e + 1) (c # cs)) # member_uses e cs
      else member_uses e cs)"

definition members_used :: "string \<Rightarrow> string list \<Rightarrow> string list" where
  "members_used e ls = concat (map (member_uses e) ls)"

fun enum_body :: "string \<Rightarrow> string list \<Rightarrow> string list" where
  "enum_body e [] = []"
| "enum_body e (l # ls) =
     (if l = ''enum '' @ e @ '' {'' then takeWhile (\<lambda>x. \<not> starts_with ''}'' x) ls
      else enum_body e ls)"

definition member_name :: "string \<Rightarrow> string" where
  "member_name l = takeWhile ident_char (dropWhile (\<lambda>c. c = CHR '' '') l)"

definition member_value :: "string \<Rightarrow> string" where
  "member_value l =
     takeWhile (\<lambda>c. c \<noteq> CHR 0x27) (drop 1 (dropWhile (\<lambda>c. c \<noteq> CHR 0x27) l))"

definition enum_members :: "string \<Rightarrow> string list \<Rightarrow> (string \<times> string) list" where
  "enum_members e ls = map (\<lambda>l. (member_name l, member_value l)) (enum_body e ls)"

section \<open>Properties of the configuration\<close>

lemma doc_ids_sidebars:
  "doc_ids sidebars =
    [''overview'', ''intro'', ''installation'', ''quick-start'', ''concepts/agents'',
     ''concepts/tools'', ''tutorials/building-chatbot'', ''examples/chatbot'', ''glossary'',
     ''api/overview'', ''api/agent-builder'', ''api/agent-executor'']"
  by (simp add: doc_ids_def sidebars_def)

lemma navbar_items_config:
  "navbar_items config = arr_items (obj_field ''items'' navbar)"
  by (simp add: navbar_items_def config_def themeConfig_def split: option.split)

lemma footer_links_config:
  "footer_links config = arr_items (obj_field ''links'' footer)"
  by (simp add: footer_links_def config_def themeConfig_def split: option.split)

text \<open>
  C2. The configuration object sets \<^verbatim>\<open>onBrokenLinks\<close> to the string \<^verbatim>\<open>'throw'\<close>, the
  setting under which the site generator turns a broken link into a build failure. The
  field is written once in the file, on line 28.
\<close>

theorem onBrokenLinks_throw:
  "str_field ''onBrokenLinks'' config = Some ''throw''
   \<and> lines_mentioning [''onBrokenLinks''] docusaurus_config_ts = [''  onBrokenLinks: 'throw','']"
  by code_simp

lemma sidebar_ids_sidebars:
  "sidebar_ids sidebars = [''tutorialSidebar'', ''apiSidebar'']"
  by (simp add: sidebar_ids_def sidebars_def)

lemma navbar_items_eval:
  "navbar_items config =
    [JObj [(''type'', JStr ''docSidebar''),
           (''sidebarId'', JStr ''tutorialSidebar''),
           (''position'', JStr ''left''),
           (''label'', JStr ''Docs'')],
     JObj [(''type'', JStr ''docSidebar''),
           (''sidebarId'', JStr ''apiSidebar''),
           (''position'', JStr ''left''),
           (''label'', JStr ''API'')],
     JObj [(''href'', JStr ''https://github.com/LinuxDevil/agent-sdk''),
           (''label'', JStr ''GitHub''),
           (''position'', JStr ''right'')],
     JObj [(''href'', JStr ''https://www.npmjs.com/package/@tajwal/build-ai-agent''),
           (''label'', JStr ''npm''),
           (''position'', JStr ''right'')]]"
  by (simp add: navbar_items_config navbar_def)

lemma footer_targets_docs:
  "footer_targets ''Docs'' config =
     [''/docs/intro'', ''/docs/api/overview'', ''/docs/examples/chatbot'']"
  by (simp add: footer_targets_def footer_section_def footer_links_config footer_def
      str_field_def)

text \<open>
  C3 (as amended). The sidebars file declares an ordered tree of document IDs grouped
  into categories; the category labels it declares are, in order, Core Concepts,
  Tutorials, Examples and Core API.
\<close>

theorem sidebar_categories:
  "category_labels sidebars = [''Core Concepts'', ''Tutorials'', ''Examples'', ''Core API'']
   \<and> category_groups sidebars =
     [(''Core Concepts'', [''concepts/agents'', ''concepts/tools'']),
      (''Tutorials'', [''tutorials/building-chatbot'']),
      (''Examples'', [''examples/chatbot'']),
      (''Core API'', [''api/agent-builder'', ''api/agent-executor''])]"
  by (simp add: category_labels_def category_groups_def sidebars_def)

text \<open>
  C3 as stated fails: no category of the sidebars file is labelled API Reference.
\<close>

theorem api_reference_not_a_category:
  "''API Reference'' \<notin> set (category_labels sidebars)"
  by (simp add: category_labels_def sidebars_def)

text \<open>
  C6. The configuration declares a title, a tagline, a base URL, an organization name
  and a project name, navigation bar entries, footer links and the syntax-highlighting
  themes.
\<close>

theorem config_declares:
  "str_field ''title'' config = Some ''Build AI Agent SDK''
   \<and> str_field ''tagline'' config =
       Some ''Framework-agnostic SDK for building intelligent AI agents''
   \<and> str_field ''baseUrl'' config = Some ''/agent-sdk-docs/''
   \<and> str_field ''organizationName'' config = Some ''LinuxDevil''
   \<and> str_field ''projectName'' config = Some ''agent-sdk-docs''
   \<and> str_fields ''label'' (navbar_items config) = [''Docs'', ''API'', ''GitHub'', ''npm'']
   \<and> str_fields ''title'' (footer_links config) = [''Docs'', ''More'']
   \<and> str_fields ''label'' (footer_section ''Docs'' config) =
       [''Getting Started'', ''API Reference'', ''Examples'']
   \<and> str_fields ''label'' (footer_section ''More'' config) = [''GitHub'']
   \<and> get_path [''themeConfig'', ''prism'', ''theme''] config = Some (JRef ''prismThemes.github'')
   \<and> get_path [''themeConfig'', ''prism'', ''darkTheme''] config =
       Some (JRef ''prismThemes.dracula'')"
  by code_simp

text \<open>
  C8. Every navigation bar item of type docSidebar names, in \<^verbatim>\<open>sidebarId\<close>, a key of
  the sidebars object.
\<close>

theorem navbar_sidebar_ids_declared:
  assumes "item \<in> set (navbar_items config)"
    and "str_field ''type'' item = Some ''docSidebar''"
  shows "\<exists>sid. str_field ''sidebarId'' item = Some sid \<and> sid \<in> set (sidebar_ids sidebars)"
  using assms
  by (auto simp add: navbar_items_eval sidebar_ids_sidebars str_field_def)

theorem navbar_sidebar_ids_declared_witness:
  "JObj [(''type'', JStr ''docSidebar''),
         (''sidebarId'', JStr ''apiSidebar''),
         (''position'', JStr ''left''),
         (''label'', JStr ''API'')] \<in> set (navbar_items config)
   \<and> str_field ''sidebarId''
        (JObj [(''type'', JStr ''docSidebar''),
               (''sidebarId'', JStr ''apiSidebar''),
               (''position'', JStr ''left''),
               (''label'', JStr ''API'')]) = Some ''apiSidebar''
   \<and> ''apiSidebar'' \<in> set (sidebar_ids sidebars)"
proof -
  let ?item = "JObj [(''type'', JStr ''docSidebar''),
                     (''sidebarId'', JStr ''apiSidebar''),
                     (''position'', JStr ''left''),
                     (''label'', JStr ''API'')]"
  have a: "?item \<in> set (navbar_items config)"
    by (simp add: navbar_items_eval)
  have b: "str_field ''type'' ?item = Some ''docSidebar''"
    by (simp add: str_field_def)
  have c: "str_field ''sidebarId'' ?item = Some ''apiSidebar''"
    by (simp add: str_field_def)
  from navbar_sidebar_ids_declared [OF a b] c
  have "''apiSidebar'' \<in> set (sidebar_ids sidebars)"
    by auto
  with a c show ?thesis
    by blast
qed

text \<open>
  C9. The address the README announces is the \<^verbatim>\<open>url\<close> of the configuration followed by
  its \<^verbatim>\<open>baseUrl\<close>.
\<close>

theorem readme_url_is_url_baseUrl:
  "published_url readme_md = concat_opt (str_field ''url'' config) (str_field ''baseUrl'' config)
   \<and> published_url readme_md = Some ''https://linuxdevil.github.io/agent-sdk-docs/''"
  by code_simp

text \<open>
  C10. Every link target of the footer section Docs is \<^verbatim>\<open>/docs/\<close> followed by a
  document ID of the sidebars.
\<close>

theorem footer_docs_links_in_sidebars:
  assumes "t \<in> set (footer_targets ''Docs'' config)"
  shows "\<exists>d. strip_prefix ''/docs/'' t = Some d \<and> d \<in> set (doc_ids sidebars)"
  using assms
  by (auto simp add: footer_targets_docs doc_ids_sidebars strip_prefix_def)

theorem footer_docs_links_in_sidebars_witness:
  "''/docs/examples/chatbot'' \<in> set (footer_targets ''Docs'' config)
   \<and> strip_prefix ''/docs/'' ''/docs/examples/chatbot'' = Some ''examples/chatbot''
   \<and> ''examples/chatbot'' \<in> set (doc_ids sidebars)"
proof -
  have a: "''/docs/examples/chatbot'' \<in> set (footer_targets ''Docs'' config)"
    by (simp add: footer_targets_docs)
  have b: "strip_prefix ''/docs/'' ''/docs/examples/chatbot'' = Some ''examples/chatbot''"
    by (simp add: strip_prefix_def)
  from footer_docs_links_in_sidebars [OF a] b
  have "''examples/chatbot'' \<in> set (doc_ids sidebars)"
    by auto
  with a b show ?thesis
    by blast
qed

section \<open>Properties of the pages\<close>

text \<open>
  C4. Two pages disagree on the members of \<^verbatim>\<open>AgentType\<close>: the chatbot example uses
  \<^verbatim>\<open>AgentType.Chatbot\<close>, and the enum declaration of the AgentBuilder reference lists
  exactly SmartAssistant, SurveyAgent, CommerceAgent and Flow, so no member of that
  name.
\<close>

theorem agent_type_pages_disagree:
  "members_used ''AgentType'' (code_lines False chatbot_example_code) = [''Chatbot'']
   \<and> enum_members ''AgentType'' (code_lines False agent_builder_type_definitions) =
       [(''SmartAssistant'', ''smart-assistant''),
        (''SurveyAgent'', ''survey-agent''),
        (''CommerceAgent'', ''commerce-agent''),
        (''Flow'', ''flow'')]
   \<and> ''Chatbot'' \<notin>
       set (map fst (enum_members ''AgentType'' (code_lines False agent_builder_type_definitions)))"
  by code_simp

lemma frontmatter_keys_pages:
  "map (\<lambda>p. (fst p, frontmatter_keys (snd p))) content_pages =
    [(''src/docs/intro.md'', [''sidebar_position'']),
     (''src/docs/overview.md'', [''sidebar_position'', ''title'', ''description'']),
     (''src/docs/glossary.md'', [''sidebar_position'', ''title'', ''description'']),
     (''src/docs/concepts/tools.md'', [''sidebar_position'']),
     (''src/docs/glossary.md from line 168 (Tutorial: Building a Complete Chatbot)'',
       [''sidebar_position'', ''title'', ''description'']),
     (''src/unnamed/part_000 (Simple Chatbot)'', [''sidebar_position'']),
     (''src/unnamed/part_001 (Quick Start)'', [''sidebar_position'']),
     (''src/unnamed/part_002 (API Overview)'', [''sidebar_position'']),
     (''src/unnamed/part_003 (AgentBuilder)'', [''sidebar_position'', ''title'', ''description'']),
     (''src/unnamed/part_004 (AgentExecutor)'', [''sidebar_position'', ''title'', ''description'']),
     (''src/unnamed/part_004 from line 748 (Installation)'', [''sidebar_position''])]"
  by code_simp

lemma frontmatter_on_all:
  "list_all
     (\<lambda>p. ''sidebar_position'' \<in> set (frontmatter_keys (snd p))
        \<and> (''title'' \<in> set (frontmatter_keys (snd p)))
          = (''description'' \<in> set (frontmatter_keys (snd p))))
     content_pages"
  by code_simp

text \<open>
  C5 (as amended). Every markdown content page of the source tree carries a frontmatter
  block with the field \<^verbatim>\<open>sidebar_position\<close>; the fields \<^verbatim>\<open>title\<close> and
  \<^verbatim>\<open>description\<close> come together or not at all, and five of the eleven pages carry
  them (lemma \<open>frontmatter_keys_pages\<close> lists the keys page by page).
\<close>

theorem pages_have_sidebar_position:
  assumes "p \<in> set content_pages"
  shows "''sidebar_position'' \<in> set (frontmatter_keys (snd p))
     \<and> (''title'' \<in> set (frontmatter_keys (snd p)))
       = (''description'' \<in> set (frontmatter_keys (snd p)))"
  using assms frontmatter_on_all
  by (simp add: list_all_iff)

theorem pages_have_sidebar_position_witness:
  "(''src/docs/overview.md'', overview_head) \<in> set content_pages
   \<and> ''sidebar_position'' \<in> set (frontmatter_keys overview_head)
   \<and> (''title'' \<in> set (frontmatter_keys overview_head))
     = (''description'' \<in> set (frontmatter_keys overview_head))"
proof -
  have a: "(''src/docs/overview.md'', overview_head) \<in> set content_pages"
    by (simp add: content_pages_def)
  from pages_have_sidebar_position [OF a] a show ?thesis
    by simp
qed

text \<open>
  C5 as stated fails on src/docs/intro.md: its frontmatter block has neither
  \<^verbatim>\<open>title\<close> nor \<^verbatim>\<open>description\<close>.
\<close>

theorem intro_lacks_title_description:
  "(''src/docs/intro.md'', intro_head) \<in> set content_pages
   \<and> frontmatter_keys intro_head = [''sidebar_position'']
   \<and> ''title'' \<notin> set (frontmatter_keys intro_head)
   \<and> ''description'' \<notin> set (frontmatter_keys intro_head)"
  by code_simp

text \<open>
  C7 (as amended). No TypeScript file of the source tree mentions, and so none declares
  or defines, any of the names AgentConfig, Message, ToolCall and ExecutionResult. The
  four interfaces are declared inside code blocks of the AgentBuilder and AgentExecutor
  pages, and on the AgentExecutor page the names Message and ToolCall also stand
  outside the code blocks, as section headings.
\<close>

theorem sdk_types_not_in_config_files:
  "lines_mentioning sdk_type_names docusaurus_config_ts = []
   \<and> lines_mentioning sdk_type_names sidebars_ts = []
   \<and> lines_mentioning sdk_type_names config_variant_ts = []
   \<and> lines_mentioning [''interface AgentConfig''] (code_lines False agent_builder_type_definitions) =
       [''interface AgentConfig {'']
   \<and> lines_mentioning [''interface''] (code_lines False agent_executor_result) =
       [''interface ExecutionResult {'']
   \<and> lines_mentioning [''interface''] (code_lines False agent_executor_types) =
       [''interface Message {'', ''interface ToolCall {'']
   \<and> lines_mentioning sdk_type_names (prose_lines False agent_executor_types) =
       [''### Message'', ''### ToolCall'']"
  by code_simp

text \<open>
  C7 as stated fails on the AgentExecutor page: line 332 is the heading
  \<^verbatim>\<open>### ToolCall\<close>, which carries the name outside every code block and without
  backquotes.
\<close>

theorem toolcall_in_heading:
  "''### ToolCall'' \<in> set (prose_lines False agent_executor_types)
   \<and> occurs ''ToolCall'' ''### ToolCall''
   \<and> CHR 0x60 \<notin> set ''### ToolCall''"
  by code_simp


end
